theory Spec2Isabelle
  imports Main
begin

section \<open>Python strings and numbers used by script.py\<close>

text \<open>
  Entry texts are Python strings. A text is modelled as a \<open>string\<close> whose characters are
  the code points below 256 (\<open>CHR 0xA0\<close> is U+00A0); texts with other code points are
  outside the model.
\<close>

definition py_isspace :: "char \<Rightarrow> bool" where
  \<comment> \<open>the code points for which \<open>str.isspace\<close> holds: tab, LF, VT, FF, CR, FS, GS, RS,
      US, the blank, NEL and the no-break space\<close>
  "py_isspace c = (c \<in> set [CHR 0x09, CHR 0x0A, CHR 0x0B, CHR 0x0C, CHR 0x0D,
                              CHR 0x1C, CHR 0x1D, CHR 0x1E, CHR 0x1F, CHR 0x20,
                              CHR 0x85, CHR 0xA0])"

definition strip :: "string \<Rightarrow> string" where
  \<comment> \<open>\<open>str.strip()\<close>\<close>
  "strip s = rev (dropWhile py_isspace (rev (dropWhile py_isspace s)))"

fun split_on :: "char \<Rightarrow> string \<Rightarrow> string list" where
  \<comment> \<open>\<open>s.split(sep)\<close> for a one-character separator: one piece more than there are
      separators, empty pieces kept\<close>
  "split_on sep [] = [[]]"
| "split_on sep (x # xs) =
     (if x = sep then [] # split_on sep xs
      else (case split_on sep xs of
              [] \<Rightarrow> [[x]]
            | w # ws \<Rightarrow> (x # w) # ws))"

text \<open>
  A Python float is represented by a decimal literal that denotes it (the stripped text it
  was read from). Equality of the representation is finer than equality of floats; nothing
  below compares two floats. A list of them stands for a numpy array, whose entries the
  model does not look at.
\<close>

datatype pyfloat = PyFloat string

datatype exn =
    ValueError string       \<comment> \<open>\<open>ValueError\<close> and its subclasses, with \<open>str(e)\<close>\<close>
  | AttributeError string
  | IndexError string
  | OtherError string string  \<comment> \<open>any other exception class: class name and \<open>str(e)\<close>\<close>

fun str_exn :: "exn \<Rightarrow> string" where
  "str_exn (ValueError m) = m"
| "str_exn (AttributeError m) = m"
| "str_exn (IndexError m) = m"
| "str_exn (OtherError c m) = m"

definition is_digit :: "char \<Rightarrow> bool" where
  "is_digit c = (c \<in> set ''0123456789'')"

fun digitpart :: "string \<Rightarrow> bool" where
  \<comment> \<open>\<open>digit (["_"] digit)*\<close>: underscores only between two digits\<close>
  "digitpart [] = False"
| "digitpart [c] = is_digit c"
| "digitpart (c # d # cs) =
     (is_digit c \<and> (if d = CHR ''_'' then digitpart cs else digitpart (d # cs)))"

definition strip_sign :: "string \<Rightarrow> string" where
  "strip_sign s = (case s of [] \<Rightarrow> [] | c # cs \<Rightarrow> if c = CHR ''+'' \<or> c = CHR ''-'' then cs else s)"

definition number :: "string \<Rightarrow> bool" where
  \<comment> \<open>\<open>[digitpart] "." digitpart | digitpart ["."]\<close>\<close>
  "number s =
     (let ip = takeWhile (\<lambda>c. c \<noteq> CHR ''.'') s;
          rest = dropWhile (\<lambda>c. c \<noteq> CHR ''.'') s
      in case rest of
           [] \<Rightarrow> digitpart ip
         | dot # fp \<Rightarrow> (ip = [] \<and> digitpart fp) \<or> (digitpart ip \<and> (fp = [] \<or> digitpart fp)))"

definition floatnumber :: "string \<Rightarrow> bool" where
  \<comment> \<open>\<open>number [("e" | "E") [sign] digitpart]\<close>\<close>
  "floatnumber s =
     (let is_e = (\<lambda>c. c = CHR ''e'' \<or> c = CHR ''E'');
          mant = takeWhile (\<lambda>c. \<not> is_e c) s;
          rest = dropWhile (\<lambda>c. \<not> is_e c) s
      in case rest of
           [] \<Rightarrow> number mant
         | e # ex \<Rightarrow> number mant \<and> digitpart (strip_sign ex))"

definition lower :: "string \<Rightarrow> string" where
  "lower s = map (\<lambda>c. case map_of (zip ''ABCDEFGHIJKLMNOPQRSTUVWXYZ''
                                       ''abcdefghijklmnopqrstuvwxyz'') c of
                         None \<Rightarrow> c | Some l \<Rightarrow> l) s"

definition floatvalue :: "string \<Rightarrow> bool" where
  \<comment> \<open>\<open>[sign] (floatnumber | "inf" | "infinity" | "nan")\<close>, letters in either case\<close>
  "floatvalue s =
     (let u = strip_sign s
      in lower u \<in> set [''inf'', ''infinity'', ''nan''] \<or> floatnumber u)"

definition printable :: "char \<Rightarrow> bool" where
  \<comment> \<open>\<open>str.isprintable\<close> on one code point below 256\<close>
  "printable c =
     (let n = (of_char c :: nat)
      in (0x20 \<le> n \<and> n < 0x7F) \<or> (0xA1 \<le> n \<and> n \<noteq> 0xAD))"

definition hex_digit :: "nat \<Rightarrow> char" where
  "hex_digit n = ''0123456789abcdef'' ! n"

definition repr_char :: "char \<Rightarrow> char \<Rightarrow> string" where
  \<comment> \<open>one character inside \<open>repr(s)\<close>, \<open>q\<close> being the quote in use\<close>
  "repr_char q c =
     (if c = q \<or> c = CHR 0x5C then [CHR 0x5C, c]
      else if c = CHR 0x09 then [CHR 0x5C, CHR ''t'']
      else if c = CHR 0x0A then [CHR 0x5C, CHR ''n'']
      else if c = CHR 0x0D then [CHR 0x5C, CHR ''r'']
      else if printable c then [c]
      else [CHR 0x5C, CHR ''x'', hex_digit (of_char c div 16), hex_digit (of_char c mod 16)])"

definition py_repr :: "string \<Rightarrow> string" where
  \<comment> \<open>\<open>repr(s)\<close>: double quotes when the text has a single quote and no double one\<close>
  "py_repr s =
     (let q = (if CHR 0x27 \<in> set s \<and> CHR 0x22 \<notin> set s then CHR 0x22 else CHR 0x27)
      in q # concat (map (repr_char q) s) @ [q])"

definition float_isspace :: "char \<Rightarrow> bool" where
  \<comment> \<open>what \<open>float\<close> skips around a number: the C whitespace (tab, LF, VT, FF, CR, blank)
      and the spaces above 127 (NEL, no-break space), which it reads as blanks; not FS, GS,
      RS, US\<close>
  "float_isspace c = (c \<in> set [CHR 0x09, CHR 0x0A, CHR 0x0B, CHR 0x0C, CHR 0x0D, CHR 0x20,
                                 CHR 0x85, CHR 0xA0])"

definition float_strip :: "string \<Rightarrow> string" where
  "float_strip s = rev (dropWhile float_isspace (rev (dropWhile float_isspace s)))"

definition py_float :: "string \<Rightarrow> exn + pyfloat" where
  \<comment> \<open>the builtin \<open>float(s)\<close> on a string\<close>
  "py_float s =
     (if floatvalue (float_strip s) then Inr (PyFloat (float_strip s))
      else Inl (ValueError (''could not convert string to float: '' @ py_repr s)))"

fun float_list :: "string list \<Rightarrow> exn + pyfloat list" where
  \<comment> \<open>\<open>list(map(float, toks))\<close>: the first token that is refused raises\<close>
  "float_list [] = Inr []"
| "float_list (tok # toks) =
     (case py_float tok of
        Inl e \<Rightarrow> Inl e
      | Inr v \<Rightarrow> (case float_list toks of Inl e \<Rightarrow> Inl e | Inr vs \<Rightarrow> Inr (v # vs)))"


section \<open>The libraries script.py calls\<close>

text \<open>
  sympy expressions are trees: a symbol, a number, or a head applied to arguments
  (\<open>Add\<close>, \<open>Mul\<close>, \<open>Pow\<close>, \<open>sin\<close>, ...).
\<close>

datatype expr =
    Symbol string
  | Float pyfloat
  | Integer int
  | App string "expr list"


datatype callable = Lambdify expr
  \<comment> \<open>\<open>lambdify((t_sym, y_sym), expr, 'numpy')\<close>\<close>

record solution =
  sol_t :: "pyfloat list"
  sol_y :: "pyfloat list list"

text \<open>
  \<open>solve_ivp\<close> is an algorithm that asks for the right-hand side at finitely many points
  of its own choice, each depending on the answers so far, and then returns a solution or
  raises.
\<close>

datatype ivp =
    Query pyfloat "pyfloat list list" "pyfloat list \<Rightarrow> ivp"
  | Return solution
  | Raise exn

text \<open>
  The behaviour of sympy, numpy and scipy is a parameter of the model:
  \<open>sympify rhs names\<close> is \<open>sympify(rhs, locals={n: symbols(n) for n in names})\<close>,
  \<open>subs e d\<close> is \<open>e.subs(d)\<close> for a dict \<open>d\<close> from symbol names to floats (sympy evaluates
  the expression it rebuilds),
  \<open>call_numpy e t y\<close> is the call of the lambdified \<open>e\<close> at \<open>(t, y)\<close>,
  \<open>solve_ivp t_span y0 t_eval\<close> is the integrator's strategy.
\<close>

record lib =
  sympify :: "string \<Rightarrow> string list \<Rightarrow> exn + expr"
  subs :: "expr \<Rightarrow> (string \<times> pyfloat) list \<Rightarrow> exn + expr"
  call_numpy :: "expr \<Rightarrow> pyfloat \<Rightarrow> pyfloat list \<Rightarrow> exn + pyfloat list"
  linspace :: "pyfloat \<Rightarrow> pyfloat \<Rightarrow> nat \<Rightarrow> pyfloat list"
  solve_ivp :: "pyfloat list \<Rightarrow> pyfloat list \<Rightarrow> pyfloat list \<Rightarrow> ivp"

section \<open>The window: class ODEGUI\<close>

record curve =
  xdata :: "pyfloat list"
  ydata :: "pyfloat list"
  label :: string

record axes =
  lines :: "curve list"
  title :: string
  xlabel :: string
  ylabel :: string
  grid :: bool
  legend :: "string list option"

datatype command = Load_example string "(string \<times> string) list" string string
  \<comment> \<open>the closure \<open>lambda e=eq, p=params, i=ic, t=tspan: self.load_example(e, p, i, t)\<close>
      with the four values bound when the button was made\<close>

record toplevel =
  win_title :: string
  win_buttons :: "(string \<times> command) list"
  win_labels :: "string list"

text \<open>
  The fields \<open>raised\<close>, \<open>ivp_calls\<close> and \<open>draws\<close> are not attributes of the Python
  object: they record, in order, every exception raised, and count the calls of
  \<open>solve_ivp\<close> and of \<open>canvas.draw\<close>.
\<close>

record gui =
  eq_entry :: string
  ic_entry :: string
  time_entry :: string
  param_entries :: "(string \<times> string) list"
  ax :: axes
  windows :: "toplevel list"
  current_params :: "(string \<times> pyfloat) list"
  raised :: "exn list"
  ivp_calls :: nat
  draws :: nat

definition ax_clear :: "axes \<Rightarrow> axes" where
  \<comment> \<open>\<open>ax.clear()\<close>: no artists, empty title and labels, default (off) grid, no legend\<close>
  "ax_clear a = \<lparr>lines = [], title = [], xlabel = [], ylabel = [], grid = False, legend = None\<rparr>"

definition set_title :: "string \<Rightarrow> axes \<Rightarrow> axes" where
  "set_title s a = a\<lparr>title := s\<rparr>"

definition set_xlabel :: "string \<Rightarrow> axes \<Rightarrow> axes" where
  "set_xlabel s a = a\<lparr>xlabel := s\<rparr>"

definition set_ylabel :: "string \<Rightarrow> axes \<Rightarrow> axes" where
  "set_ylabel s a = a\<lparr>ylabel := s\<rparr>"

definition ax_grid :: "bool \<Rightarrow> axes \<Rightarrow> axes" where
  "ax_grid b a = a\<lparr>grid := b\<rparr>"

definition plot :: "pyfloat list \<Rightarrow> pyfloat list \<Rightarrow> string \<Rightarrow> axes \<Rightarrow> axes" where
  "plot xs ys lbl a = a\<lparr>lines := lines a @ [\<lparr>xdata = xs, ydata = ys, label = lbl\<rparr>]\<rparr>"

definition ax_legend :: "axes \<Rightarrow> axes" where
  "ax_legend a = a\<lparr>legend := Some (map label (lines a))\<rparr>"

definition canvas_draw :: "gui \<Rightarrow> gui" where
  "canvas_draw g = g\<lparr>draws := Suc (draws g)\<rparr>"

definition init_gui :: gui where
  \<comment> \<open>\<open>__init__\<close>: the entries as \<open>create_equation_input\<close> and \<open>create_parameter_input\<close>
      fill them, the axes as \<open>create_plot_area\<close> leaves them\<close>
  "init_gui =
     \<lparr>eq_entry = ''dy/dt = -a*y + sin(b*t)'',
      ic_entry = ''1.0'',
      time_entry = ''0, 10'',
      param_entries = [(''a'', ''0.5''), (''b'', ''1.0''), (''c'', ''0.8''), (''k'', ''1.0'')],
      ax = ax_grid True (set_title ''Solution Plot''
             \<lparr>lines = [], title = [], xlabel = [], ylabel = [], grid = False, legend = None\<rparr>),
      windows = [],
      current_params = [],
      raised = [],
      ivp_calls = 0,
      draws = 0\<rparr>"

definition raise_exn :: "exn \<Rightarrow> gui \<Rightarrow> (exn + 'a) \<times> gui" where
  "raise_exn e g = (Inl e, g\<lparr>raised := raised g @ [e]\<rparr>)"

text \<open>
  Class \<open>ODEGUI\<close> defines \<open>__init__\<close>, \<open>create_equation_input\<close>,
  \<open>create_parameter_input\<close>, \<open>create_plot_area\<close>, \<open>create_controls\<close>, \<open>clear_plot\<close>,
  \<open>parse_equation\<close>, \<open>solve\<close>, \<open>show_examples\<close> and \<open>show_help\<close>, and nothing else:
  the file ends with the comment "Other methods remain similar with improved error
  messages". Its base class \<open>tk.Tk\<close> has no \<open>show_error\<close> and no \<open>load_example\<close>
  either, and hands unknown attributes to the Tcl interpreter object, which has none of
  that name. So the attribute lookup in \<open>self.show_error(...)\<close> and in
  \<open>self.load_example(...)\<close> raises \<open>AttributeError\<close>, before the arguments are
  evaluated.
\<close>

definition attribute_error :: "string \<Rightarrow> exn" where
  "attribute_error name =
     AttributeError (py_repr ''_tkinter.tkapp'' @ '' object has no attribute '' @ py_repr name)"

definition no_attribute :: "string \<Rightarrow> gui \<Rightarrow> (exn + 'a) \<times> gui" where
  "no_attribute name g = raise_exn (attribute_error name) g"

definition show_error :: "string \<Rightarrow> gui \<Rightarrow> (exn + unit) \<times> gui" where
  "show_error message g = no_attribute ''show_error'' g"

definition load_example ::
  "string \<Rightarrow> (string \<times> string) list \<Rightarrow> string \<Rightarrow> string \<Rightarrow> gui \<Rightarrow> (exn + unit) \<times> gui" where
  "load_example e p i t g = no_attribute ''load_example'' g"

definition clear_plot :: "gui \<Rightarrow> gui" where
  "clear_plot g =
     canvas_draw (g\<lparr>ax := ax_grid True (set_title ''Solution Plot'' (ax_clear (ax g)))\<rparr>)"

definition rhs_text :: "string \<Rightarrow> exn + string" where
  \<comment> \<open>\<open>eq_text.split('=')[1].strip()\<close>\<close>
  "rhs_text eq_text =
     (case split_on CHR ''='' eq_text of
        lhs # r # rest \<Rightarrow> Inr (strip r)
      | _ \<Rightarrow> Inl (IndexError ''list index out of range''))"

fun param_values :: "(string \<times> string) list \<Rightarrow> exn + (string \<times> pyfloat) list" where
  \<comment> \<open>\<open>{name: float(entry.get()) for name, entry in ... if entry.get()}\<close>\<close>
  "param_values [] = Inr []"
| "param_values ((name, txt) # rest) =
     (if txt = [] then param_values rest
      else (case py_float txt of
              Inl e \<Rightarrow> Inl e
            | Inr v \<Rightarrow> (case param_values rest of
                          Inl e \<Rightarrow> Inl e
                        | Inr pv \<Rightarrow> Inr ((name, v) # pv))))"

definition parse_equation_try :: "lib \<Rightarrow> gui \<Rightarrow> (exn + callable) \<times> gui" where
  \<comment> \<open>the \<open>try\<close> block of \<open>parse_equation\<close>\<close>
  "parse_equation_try L g =
     (let eq_text = eq_entry g
      in if CHR ''='' \<notin> set eq_text
         then raise_exn (ValueError ''Equation must contain '=' sign'') g
         else (case rhs_text eq_text of
                 Inl e \<Rightarrow> raise_exn e g
               | Inr rhs \<Rightarrow>
                  (case sympify L rhs (map fst (param_entries g)) of
                     Inl e \<Rightarrow> raise_exn e g
                   | Inr expr \<Rightarrow>
                      (case param_values (param_entries g) of
                         Inl e \<Rightarrow> raise_exn e g
                       | Inr pv \<Rightarrow>
                          (case subs L expr pv of
                             Inl e \<Rightarrow> raise_exn e g
                           | Inr expr_sub \<Rightarrow> (Inr (Lambdify expr_sub), g))))))"

definition parse_equation :: "lib \<Rightarrow> gui \<Rightarrow> (exn + callable option) \<times> gui" where
  \<comment> \<open>\<open>None\<close> is what the handler returns after \<open>show_error\<close>\<close>
  "parse_equation L g =
     (case parse_equation_try L g of
        (Inr f, g1) \<Rightarrow> (Inr (Some f), g1)
      | (Inl e, g1) \<Rightarrow>
          (case show_error (''Equation parsing error: '' @ str_exn e) g1 of
             (Inl e2, g2) \<Rightarrow> (Inl e2, g2)
           | (Inr u, g2) \<Rightarrow> (Inr None, g2)))"

definition ode_func ::
  "lib \<Rightarrow> callable \<Rightarrow> pyfloat \<Rightarrow> pyfloat list list \<Rightarrow> gui \<Rightarrow> (exn + pyfloat list) \<times> gui" where
  \<comment> \<open>the closure \<open>ode_func(t, y)\<close>; the last branch is the bare \<open>raise\<close>\<close>
  "ode_func L rhs_func t y g =
     (case (case y of
              [] \<Rightarrow> Inl (IndexError ''index 0 is out of bounds'')
            | y0 # ys \<Rightarrow> (case rhs_func of Lambdify e \<Rightarrow> call_numpy L e t y0)) of
        Inr v \<Rightarrow> (Inr v, g)
      | Inl e \<Rightarrow>
          (case show_error (''Evaluation error: '' @ str_exn e) (g\<lparr>raised := raised g @ [e]\<rparr>) of
             (Inl e2, g2) \<Rightarrow> (Inl e2, g2)
           | (Inr u, g2) \<Rightarrow> (Inl e, g2)))"

primrec run_ivp ::
  "(pyfloat \<Rightarrow> pyfloat list list \<Rightarrow> gui \<Rightarrow> (exn + pyfloat list) \<times> gui) \<Rightarrow> ivp \<Rightarrow> gui
     \<Rightarrow> (exn + solution) \<times> gui" where
  \<comment> \<open>the integrator running against \<open>fun\<close>: an exception of \<open>fun\<close> passes through\<close>
  "run_ivp f (Query t y k) g =
     (case f t y g of
        (Inl e, g1) \<Rightarrow> (Inl e, g1)
      | (Inr v, g1) \<Rightarrow> run_ivp f (k v) g1)"
| "run_ivp f (Return s) g = (Inr s, g)"
| "run_ivp f (Raise e) g = raise_exn e g"

definition solve_try :: "lib \<Rightarrow> gui \<Rightarrow> (exn + unit) \<times> gui" where
  \<comment> \<open>the \<open>try\<close> block of \<open>solve\<close>\<close>
  "solve_try L g =
     (case float_list (split_on CHR '','' (time_entry g)) of
        Inl e \<Rightarrow> raise_exn e g
      | Inr t_span \<Rightarrow>
          if length t_span \<noteq> 2
          then raise_exn (ValueError ''Time span must contain exactly two numbers'') g
          else (case py_float (ic_entry g) of
                  Inl e \<Rightarrow> raise_exn e g
                | Inr y0 \<Rightarrow>
                   (case parse_equation L g of
                      (Inl e, g1) \<Rightarrow> (Inl e, g1)
                    | (Inr None, g1) \<Rightarrow> (Inr (), g1)
                    | (Inr (Some rhs_func), g1) \<Rightarrow>
                       (case run_ivp (ode_func L rhs_func)
                               (solve_ivp L t_span [y0]
                                  (linspace L (t_span ! 0) (t_span ! 1) 1000))
                               (g1\<lparr>ivp_calls := Suc (ivp_calls g1)\<rparr>) of
                          (Inl e, g2) \<Rightarrow> (Inl e, g2)
                        | (Inr sol, g2) \<Rightarrow>
                           (let g3 = g2\<lparr>ax := ax_clear (ax g2)\<rparr>
                            in case sol_y sol of
                                 [] \<Rightarrow> raise_exn (IndexError ''index 0 is out of bounds'') g3
                               | y_row # rows \<Rightarrow>
                                   (Inr (), canvas_draw (g3\<lparr>ax :=
                                      ax_legend (set_ylabel ''y(t)'' (set_xlabel ''Time (t)''
                                        (plot (sol_t sol) y_row ''Numerical Solution''
                                           (ax g3))))\<rparr>)))))))"

fun except_message :: "exn \<Rightarrow> string" where
  \<comment> \<open>the two handlers of \<open>solve\<close>: \<open>except ValueError as ve\<close> first, then
      \<open>except Exception as e\<close>, each with the message it builds\<close>
  "except_message (ValueError m) = ''Input error: '' @ m"
| "except_message e = ''Solution error: '' @ str_exn e"

definition solve :: "lib \<Rightarrow> gui \<Rightarrow> (exn + unit) \<times> gui" where
  \<comment> \<open>the command of the Solve button\<close>
  "solve L g =
     (case solve_try L g of
        (Inr u, g1) \<Rightarrow> (Inr u, g1)
      | (Inl e, g1) \<Rightarrow> show_error (except_message e) g1)"

definition examples :: "(string \<times> string \<times> (string \<times> string) list \<times> string \<times> string) list" where
  "examples =
     [(''Exponential Decay'', ''dy/dt = -a*y'', [(''a'', ''0.5'')], ''1.0'', ''0, 5''),
      (''Harmonic Oscillator'', ''dy/dt = -k*y'', [(''k'', ''1.0'')], ''0.0'', ''0, 10''),
      (''Forced Oscillator'', ''dy/dt = -k*y + sin(b*t)'', [(''k'', ''1.0''), (''b'', ''3.0'')],
         ''0.0'', ''0, 20''),
      (''Logistic Growth'', ''dy/dt = c*y*(1 - y)'', [(''c'', ''0.8'')], ''0.1'', ''0, 10'')]"

definition show_examples :: "gui \<Rightarrow> gui" where
  \<comment> \<open>the command of the Examples button: a new window, one button and one label per
      preset\<close>
  "show_examples g =
     g\<lparr>windows := windows g @
        [\<lparr>win_title = ''Example Equations'',
          win_buttons = map (\<lambda>(name, eq, params, ic, tspan).
                               (name, Load_example eq params ic tspan)) examples,
          win_labels = map (\<lambda>(name, eq, params, ic, tspan). eq) examples\<rparr>]\<rparr>"

fun invoke :: "command \<Rightarrow> gui \<Rightarrow> (exn + unit) \<times> gui" where
  "invoke (Load_example e p i t) g = load_example e p i t g"

definition press :: "string \<Rightarrow> toplevel \<Rightarrow> gui \<Rightarrow> (exn + unit) \<times> gui" where
  \<comment> \<open>a click on the button of that text in the window; no such button, no effect\<close>
  "press name w g =
     (case map_of (win_buttons w) name of
        None \<Rightarrow> (Inr (), g)
      | Some cmd \<Rightarrow> invoke cmd g)"

section \<open>The spec's words\<close>

definition after_first :: "char \<Rightarrow> string \<Rightarrow> string" where
  \<comment> \<open>"the substring after the first \<open>c\<close>"\<close>
  "after_first c s = drop 1 (dropWhile (\<lambda>x. x \<noteq> c) s)"

definition two_numeric_tokens :: "string \<Rightarrow> bool" where
  \<comment> \<open>"splits on comma into exactly two numeric tokens", a numeric token being a text
      that \<open>float\<close> reads\<close>
  "two_numeric_tokens txt =
     (length (split_on CHR '','' txt) = 2 \<and>
      list_all (\<lambda>tok. floatvalue (float_strip tok)) (split_on CHR '','' txt))"

section \<open>A small instance of the libraries\<close>

text \<open>
  The theorems below hold for every behaviour of the libraries. To run the model on
  concrete inputs, this instance
  \<^item> parses three right-hand sides;
  \<^item> substitutes by replacing the symbols and, as sympy's \<open>Mul\<close> does, turns a product
    with a zero factor into that zero (other numeric factors are left side by side);
  \<^item> calls the generated function: \<open>lambdify\<close> binds every symbol left in the expression
    to the sympy symbol itself, so arithmetic on it goes through, and a numpy function
    applied to it (\<open>sin\<close> of \<open>b*t\<close>) raises \<open>TypeError\<close>; otherwise a value comes back
    (here the argument \<open>y\<close>). With a symbol left outside every function the value
    is a sympy object, which scipy refuses later; the arrays of the model have no such
    value, and no statement below runs the instance on such an expression;
  \<^item> keeps the end points of \<open>linspace\<close> only, and integrates with one query, returning
    the constant curve.
\<close>

fun replace_symbols :: "(string \<rightharpoonup> pyfloat) \<Rightarrow> expr \<Rightarrow> expr" where
  "replace_symbols d (Symbol s) = (case d s of None \<Rightarrow> Symbol s | Some v \<Rightarrow> Float v)"
| "replace_symbols d (Float v) = Float v"
| "replace_symbols d (Integer i) = Integer i"
| "replace_symbols d (App f args) = App f (map (replace_symbols d) args)"

definition zero_float :: "expr \<Rightarrow> bool" where
  "zero_float e = (e \<in> set [Float (PyFloat ''0''), Float (PyFloat ''0.0'')])"

fun eval_products :: "expr \<Rightarrow> expr" where
  "eval_products (App f args) =
     (let xs = map eval_products args
      in if f = ''Mul'' then (case filter zero_float xs of [] \<Rightarrow> App f xs | z # zs \<Rightarrow> z)
         else App f xs)"
| "eval_products e = e"

definition demo_subs :: "expr \<Rightarrow> (string \<times> pyfloat) list \<Rightarrow> exn + expr" where
  "demo_subs e d = Inr (eval_products (replace_symbols (map_of d) e))"

definition demo_sympify :: "string \<Rightarrow> string list \<Rightarrow> exn + expr" where
  "demo_sympify rhs names =
     (case map_of
             [(''-a*y'', App ''Mul'' [Integer (- 1), Symbol ''a'', Symbol ''y'']),
              (''a*b'', App ''Mul'' [Symbol ''a'', Symbol ''b'']),
              (''-a*y + sin(b*t)'',
                 App ''Add'' [App ''Mul'' [Integer (- 1), Symbol ''a'', Symbol ''y''],
                              App ''sin'' [App ''Mul'' [Symbol ''b'', Symbol ''t'']]])] rhs of
        Some e \<Rightarrow> Inr e
      | None \<Rightarrow> Inl (ValueError (''could not parse '' @ py_repr rhs)))"

fun symbol_under_function :: "bool \<Rightarrow> expr \<Rightarrow> bool" where
  \<comment> \<open>a symbol other than \<open>t\<close> and \<open>y\<close> among the arguments of a head that is not
      \<open>Add\<close>, \<open>Mul\<close> or \<open>Pow\<close>; the flag says whether such a head is above\<close>
  "symbol_under_function u (Symbol s) = (u \<and> s \<notin> set [''t'', ''y''])"
| "symbol_under_function u (Float v) = False"
| "symbol_under_function u (Integer i) = False"
| "symbol_under_function u (App f args) =
     list_ex (symbol_under_function (u \<or> f \<notin> set [''Add'', ''Mul'', ''Pow''])) args"

definition demo_call_numpy :: "expr \<Rightarrow> pyfloat \<Rightarrow> pyfloat list \<Rightarrow> exn + pyfloat list" where
  "demo_call_numpy e t y =
     (if symbol_under_function False e
      then Inl (OtherError ''TypeError''
                  ''loop of ufunc does not support argument 0 of type Mul which has no callable sin method'')
      else Inr y)"

definition demo_solve_ivp :: "pyfloat list \<Rightarrow> pyfloat list \<Rightarrow> pyfloat list \<Rightarrow> ivp" where
  "demo_solve_ivp t_span y0 t_eval =
     (case t_span of
        [] \<Rightarrow> Raise (ValueError ''`t_span` must be a two-element sequence.'')
      | t0 # ts \<Rightarrow> Query t0 [y0]
                    (\<lambda>dy. Return \<lparr>sol_t = t_eval, sol_y = [concat (map (\<lambda>t. y0) t_eval)]\<rparr>))"

definition demo_lib :: lib where
  "demo_lib =
     \<lparr>sympify = demo_sympify,
      subs = demo_subs,
      call_numpy = demo_call_numpy,
      linspace = (\<lambda>a b n. [a, b]),
      solve_ivp = demo_solve_ivp\<rparr>"

section \<open>Predicates used in the proofs\<close>

text \<open>\<open>same_window g g'\<close>: nothing but the record of raised exceptions differs.\<close>

definition same_window :: "gui \<Rightarrow> gui \<Rightarrow> bool" where
  "same_window g g' = (g' = g\<lparr>raised := raised g'\<rparr>)"

text \<open>The axes as the last lines of \<open>solve\<close> leave them, for the curve \<open>(xs, ys)\<close>.\<close>

definition plotted_axes :: "pyfloat list \<Rightarrow> pyfloat list \<Rightarrow> axes" where
  "plotted_axes xs ys =
     \<lparr>lines = [\<lparr>xdata = xs, ydata = ys, label = ''Numerical Solution''\<rparr>],
      title = [], xlabel = ''Time (t)'', ylabel = ''y(t)'', grid = False,
      legend = Some [''Numerical Solution'']\<rparr>"

text \<open>
  The first exception that an evaluation of the right-hand side raises while the
  integrator runs, if one does: \<open>y[0]\<close> on an empty array, or the call of the generated
  function.
\<close>

primrec rhs_failure :: "lib \<Rightarrow> expr \<Rightarrow> ivp \<Rightarrow> exn option" where
  "rhs_failure L e (Query t y k) =
     (case y of
        [] \<Rightarrow> Some (IndexError ''index 0 is out of bounds'')
      | y0 # ys \<Rightarrow> (case call_numpy L e t y0 of
                      Inl x \<Rightarrow> Some x
                    | Inr v \<Rightarrow> rhs_failure L e (k v)))"
| "rhs_failure L e (Return s) = None"
| "rhs_failure L e (Raise x) = None"

section \<open>Evaluation and frame lemmas\<close>

lemmas text_defs = strip_def py_isspace_def float_strip_def float_isspace_def py_float_def
  floatvalue_def floatnumber_def number_def strip_sign_def lower_def is_digit_def
  py_repr_def repr_char_def printable_def hex_digit_def

lemma show_error_fails:
  "show_error m g =
     (Inl (attribute_error ''show_error''),
      g\<lparr>raised := raised g @ [attribute_error ''show_error'']\<rparr>)"
  by (simp add: show_error_def no_attribute_def raise_exn_def)

lemma load_example_fails:
  "load_example e p i t g =
     (Inl (attribute_error ''load_example''),
      g\<lparr>raised := raised g @ [attribute_error ''load_example'']\<rparr>)"
  by (simp add: load_example_def no_attribute_def raise_exn_def)

lemma same_window_refl: "same_window g g"
  by (simp add: same_window_def)

lemma same_window_trans: "same_window g g1 \<Longrightarrow> same_window g1 g2 \<Longrightarrow> same_window g g2"
  unfolding same_window_def
  by (metis gui.update_convs(8) gui.surjective)

lemma same_window_fields:
  "same_window g g' \<Longrightarrow>
     ax g' = ax g \<and> draws g' = draws g \<and> ivp_calls g' = ivp_calls g \<and>
     eq_entry g' = eq_entry g \<and> ic_entry g' = ic_entry g \<and> time_entry g' = time_entry g \<and>
     param_entries g' = param_entries g"
  unfolding same_window_def by (metis gui.select_convs gui.surjective gui.update_convs(8))

lemma same_window_raise_exn: "same_window g (snd (raise_exn e g))"
  by (simp add: raise_exn_def same_window_def)

lemma same_window_show_error: "same_window g (snd (show_error m g))"
  by (simp add: show_error_fails same_window_def)

lemma same_window_parse_equation_try: "same_window g (snd (parse_equation_try L g))"
  by (simp add: parse_equation_try_def Let_def same_window_raise_exn same_window_refl
        split: sum.splits)

lemma parse_equation_try_Inr: "parse_equation_try L g = (Inr f, g') \<Longrightarrow> g' = g"
  by (simp add: parse_equation_try_def Let_def raise_exn_def split: sum.splits if_splits)

lemma parse_equation_cases:
  "(\<exists>f. parse_equation L g = (Inr (Some f), g) \<and> parse_equation_try L g = (Inr f, g)) \<or>
   (\<exists>e. parse_equation_try L g = raise_exn e g \<and>
        parse_equation L g =
          (Inl (attribute_error ''show_error''),
           g\<lparr>raised := raised g @ [e, attribute_error ''show_error'']\<rparr>))"
  by (auto simp add: parse_equation_def parse_equation_try_def Let_def raise_exn_def
        show_error_fails split: sum.splits)

lemma same_window_ode_func: "same_window g (snd (ode_func L f t y g))"
  by (simp add: ode_func_def show_error_fails same_window_def same_window_refl split: sum.splits)

lemma same_window_run_ivp: "same_window g (snd (run_ivp (ode_func L f) tree g))"
proof (induction tree arbitrary: g)
  case (Query t y k)
  show ?case
  proof (cases "ode_func L f t y g")
    case (Pair r g1)
    have w: "same_window g g1" using same_window_ode_func [of g L f t y] Pair by simp
    show ?thesis
    proof (cases r)
      case (Inl e)
      then show ?thesis using Pair w by simp
    next
      case (Inr v)
      have "same_window g1 (snd (run_ivp (ode_func L f) (k v) g1))"
        using Query.IH by blast
      then show ?thesis using Pair Inr w same_window_trans [of g g1] by simp
    qed
  qed
next
  case (Return s)
  then show ?case by (simp add: same_window_refl)
next
  case (Raise e)
  then show ?case by (simp add: same_window_raise_exn)
qed

lemma solve_handlers_same_window:
  "fst (solve_try L g) = Inl e \<Longrightarrow> same_window (snd (solve_try L g)) (snd (solve L g))"
  by (cases "solve_try L g") (simp add: solve_def show_error_fails same_window_def)

lemma parse_equation_ax: "ax (snd (parse_equation L g)) = ax g"
  using parse_equation_cases [of L g] by auto

lemma parse_equation_not_None: "parse_equation L g \<noteq> (Inr None, g1)"
  using parse_equation_cases [of L g] by auto

lemma run_ivp_ax: "run_ivp (ode_func L f) tree g = (r, g2) \<Longrightarrow> ax g2 = ax g"
  using same_window_fields [OF same_window_run_ivp [of g L f tree]] by simp

lemma solve_try_ax:
  "(\<exists>e. fst (solve_try L g) = Inl e \<and>
        (ax (snd (solve_try L g)) = ax g \<or> ax (snd (solve_try L g)) = ax_clear (ax g))) \<or>
   (fst (solve_try L g) = Inr () \<and> (\<exists>xs ys. ax (snd (solve_try L g)) = plotted_axes xs ys))"
proof (cases "float_list (split_on CHR '','' (time_entry g))")
  case (Inl e)
  then show ?thesis by (simp add: solve_try_def raise_exn_def)
next
  case ts: (Inr t_span)
  show ?thesis
  proof (cases "length t_span \<noteq> 2")
    case True
    then show ?thesis using ts by (simp add: solve_try_def raise_exn_def)
  next
    case len: False
    show ?thesis
    proof (cases "py_float (ic_entry g)")
      case (Inl e)
      then show ?thesis using ts len by (simp add: solve_try_def raise_exn_def)
    next
      case ic: (Inr y0)
      from parse_equation_cases [of L g] show ?thesis
      proof
        assume "\<exists>e. parse_equation_try L g = raise_exn e g \<and>
          parse_equation L g = (Inl (attribute_error ''show_error''),
             g\<lparr>raised := raised g @ [e, attribute_error ''show_error'']\<rparr>)"
        then show ?thesis using ts len ic by (auto simp add: solve_try_def)
      next
        assume "\<exists>f. parse_equation L g = (Inr (Some f), g) \<and> parse_equation_try L g = (Inr f, g)"
        then obtain f where pe: "parse_equation L g = (Inr (Some f), g)" by blast
        obtain r g2 where rv: "run_ivp (ode_func L f)
              (solve_ivp L t_span [y0] (linspace L (t_span ! 0) (t_span ! 1) 1000))
              (g\<lparr>ivp_calls := Suc (ivp_calls g)\<rparr>) = (r, g2)"
          by (cases "run_ivp (ode_func L f)
              (solve_ivp L t_span [y0] (linspace L (t_span ! 0) (t_span ! 1) 1000))
              (g\<lparr>ivp_calls := Suc (ivp_calls g)\<rparr>)") auto
        have a2: "ax g2 = ax g" using run_ivp_ax [OF rv] by simp
        show ?thesis
        proof (cases r)
          case (Inl e)
          then show ?thesis using ts len ic pe rv a2 by (simp add: solve_try_def)
        next
          case (Inr sol)
          show ?thesis
          proof (cases "sol_y sol")
            case Nil
            then show ?thesis using ts len ic pe rv a2 Inr
              by (simp add: solve_try_def raise_exn_def)
          next
            case (Cons y_row rows)
            then show ?thesis using ts len ic pe rv a2 Inr
              by (simp add: solve_try_def plotted_axes_def canvas_draw_def ax_legend_def
                    set_ylabel_def set_xlabel_def plot_def ax_clear_def)
          qed
        qed
      qed
    qed
  qed
qed

lemma solve_ax:
  "(\<exists>e. fst (solve L g) = Inl e \<and>
        (ax (snd (solve L g)) = ax g \<or> ax (snd (solve L g)) = ax_clear (ax g))) \<or>
   (solve L g = solve_try L g \<and> fst (solve L g) = Inr () \<and> (\<exists>xs ys. ax (snd (solve L g)) = plotted_axes xs ys))"
proof (cases "solve_try L g")
  case (Pair r g1)
  show ?thesis
  proof (cases r)
    case (Inl e)
    have "same_window g1 (snd (solve L g))"
      using solve_handlers_same_window [of L g e] Pair Inl by simp
    then have "ax (snd (solve L g)) = ax g1" using same_window_fields by blast
    moreover have "\<exists>e'. fst (solve L g) = Inl e'"
      using Pair Inl by (simp add: solve_def show_error_fails)
    ultimately show ?thesis using solve_try_ax [of L g] Pair Inl by auto
  next
    case (Inr u)
    then have "solve L g = solve_try L g" using Pair by (simp add: solve_def)
    then show ?thesis using solve_try_ax [of L g] Pair Inr by auto
  qed
qed

lemma ode_func_failure:
  "call_numpy L e t y0 = Inl x \<Longrightarrow>
     ode_func L (Lambdify e) t (y0 # ys) g =
       (Inl (attribute_error ''show_error''),
        g\<lparr>raised := raised g @ [x, attribute_error ''show_error'']\<rparr>)"
  by (simp add: ode_func_def show_error_fails raise_exn_def)

lemma run_ivp_rhs_failure:
  "rhs_failure L e tree = Some x \<Longrightarrow>
     run_ivp (ode_func L (Lambdify e)) tree g =
       (Inl (attribute_error ''show_error''),
        g\<lparr>raised := raised g @ [x, attribute_error ''show_error'']\<rparr>)"
proof (induction tree arbitrary: g)
  case (Query t y k)
  show ?case
  proof (cases y)
    case Nil
    then show ?thesis using Query.prems
      by (simp add: ode_func_def show_error_fails raise_exn_def)
  next
    case (Cons y0 ys)
    show ?thesis
    proof (cases "call_numpy L e t y0")
      case (Inl x')
      then show ?thesis using Cons Query.prems by (simp add: ode_func_failure)
    next
      case (Inr v)
      then have "rhs_failure L e (k v) = Some x" using Cons Query.prems by simp
      then show ?thesis using Query.IH Cons Inr by (simp add: ode_func_def)
    qed
  qed
next
  case (Return s)
  then show ?case by simp
next
  case (Raise e)
  then show ?case by simp
qed

section \<open>The Clear button\<close>

text \<open>
  C8. Pressing Clear, in every state of the window (so also after a successful solve),
  leaves the chart with no plotted curve, the title "Solution Plot" and the grid on.
\<close>

theorem clear_plot_blank_titled_gridded:
  "lines (ax (clear_plot g)) = [] \<and> title (ax (clear_plot g)) = ''Solution Plot'' \<and>
   grid (ax (clear_plot g))"
  by (simp add: clear_plot_def canvas_draw_def ax_grid_def set_title_def ax_clear_def)

section \<open>Validation of the time span\<close>

lemma float_list_Inl: "float_list toks = Inl e \<Longrightarrow> \<exists>m. e = ValueError m"
  by (induction toks) (auto simp add: py_float_def split: sum.splits if_splits)

lemma float_list_Inr:
  "float_list toks = Inr vs \<Longrightarrow>
     length vs = length toks \<and> list_all (\<lambda>tok. floatvalue (float_strip tok)) toks"
  by (induction toks arbitrary: vs) (auto simp add: py_float_def split: sum.splits if_splits)

lemma float_list_accepts:
  "list_all (\<lambda>tok. floatvalue (float_strip tok)) toks \<Longrightarrow>
     \<exists>vs. float_list toks = Inr vs \<and> length vs = length toks"
  by (induction toks) (auto simp add: py_float_def)

lemma solve_try_bad_time_span:
  assumes "\<not> two_numeric_tokens (time_entry g)"
  shows "\<exists>m. solve_try L g = raise_exn (ValueError m) g"
proof (cases "float_list (split_on CHR '','' (time_entry g))")
  case (Inl e)
  then obtain m where "e = ValueError m" using float_list_Inl by blast
  then show ?thesis using Inl by (auto simp add: solve_try_def)
next
  case (Inr vs)
  then have "length vs \<noteq> 2"
    using assms float_list_Inr [OF Inr] by (auto simp add: two_numeric_tokens_def)
  then show ?thesis using Inr by (auto simp add: solve_try_def)
qed

text \<open>
  C4. For every time-span text that does not split on comma into exactly two numeric
  tokens (a numeric token being a text that \<open>float\<close> reads), pressing Solve produces an
  input-format error and attempts no integration: the \<open>try\<close> block of \<open>solve\<close> raises a
  \<open>ValueError\<close> at the validation of the time span, the handler that takes it is the one
  for \<open>ValueError\<close>, whose message is "Input error: " and the text of the error, and
  \<open>solve_ivp\<close> is not called.
\<close>

theorem bad_time_span_input_error:
  assumes "\<not> two_numeric_tokens (time_entry g)"
  shows "\<exists>m. solve_try L g = raise_exn (ValueError m) g \<and>
             except_message (ValueError m) = ''Input error: '' @ m \<and>
             solve L g =
               show_error (''Input error: '' @ m) (g\<lparr>raised := raised g @ [ValueError m]\<rparr>) \<and>
             ivp_calls (snd (solve L g)) = ivp_calls g"
proof -
  obtain m where m: "solve_try L g = raise_exn (ValueError m) g"
    using solve_try_bad_time_span [OF assms] by blast
  then have s: "solve L g =
      show_error (''Input error: '' @ m) (g\<lparr>raised := raised g @ [ValueError m]\<rparr>)"
    by (simp add: solve_def raise_exn_def)
  have "ivp_calls (snd (solve L g)) = ivp_calls g"
    by (simp add: s show_error_fails)
  then show ?thesis using m s by auto
qed

theorem bad_time_span_input_error_witness:
  "\<not> two_numeric_tokens (time_entry (init_gui\<lparr>time_entry := ''0 10''\<rparr>)) \<and>
   (\<exists>m. solve_try demo_lib (init_gui\<lparr>time_entry := ''0 10''\<rparr>) =
            raise_exn (ValueError m) (init_gui\<lparr>time_entry := ''0 10''\<rparr>) \<and>
        except_message (ValueError m) = ''Input error: '' @ m \<and>
        solve demo_lib (init_gui\<lparr>time_entry := ''0 10''\<rparr>) =
          show_error (''Input error: '' @ m)
            (init_gui\<lparr>time_entry := ''0 10'',
                      raised := raised (init_gui\<lparr>time_entry := ''0 10''\<rparr>) @ [ValueError m]\<rparr>) \<and>
        ivp_calls (snd (solve demo_lib (init_gui\<lparr>time_entry := ''0 10''\<rparr>))) =
          ivp_calls (init_gui\<lparr>time_entry := ''0 10''\<rparr>))"
proof -
  have h: "\<not> two_numeric_tokens (time_entry (init_gui\<lparr>time_entry := ''0 10''\<rparr>))"
    by (simp add: two_numeric_tokens_def)
  show ?thesis
    using h bad_time_span_input_error [OF h, of demo_lib] by simp
qed

section \<open>Equations without an equals sign\<close>

lemma parse_equation_try_no_equals:
  "CHR ''='' \<notin> set (eq_entry g) \<Longrightarrow>
     parse_equation_try L g = raise_exn (ValueError ''Equation must contain '=' sign'') g"
  by (simp add: parse_equation_try_def)

lemma parse_equation_no_equals:
  "CHR ''='' \<notin> set (eq_entry g) \<Longrightarrow>
     parse_equation L g =
       (Inl (attribute_error ''show_error''),
        g\<lparr>raised := raised g @ [ValueError ''Equation must contain '=' sign'',
                                attribute_error ''show_error'']\<rparr>)"
  by (simp add: parse_equation_def parse_equation_try_no_equals raise_exn_def show_error_fails)

lemma solve_try_no_equals:
  assumes "CHR ''='' \<notin> set (eq_entry g)"
  shows "same_window g (snd (solve_try L g)) \<and> (\<exists>e. fst (solve_try L g) = Inl e)"
  using assms
  by (simp add: solve_try_def parse_equation_no_equals raise_exn_def same_window_def
        split: sum.splits)

text \<open>
  C3, as the code has it. For every equation text that contains no \<open>=\<close>, pressing Solve
  attempts no integration, the \<open>try\<close> block of \<open>parse_equation\<close> raises the format error
  "Equation must contain '=' sign", and \<open>parse_equation\<close> hands no callable to its caller.
  When the time span splits into two numeric tokens and the initial condition is numeric,
  Solve reaches the parser: the first exception raised during that Solve is the format
  error. (With a time span or an initial condition that \<open>float\<close> refuses, \<open>solve\<close> stops at
  that input error before it calls \<open>parse_equation\<close>.)
\<close>

theorem no_equals_sign_no_integration:
  assumes "CHR ''='' \<notin> set (eq_entry g)"
  shows "ivp_calls (snd (solve L g)) = ivp_calls g \<and>
         parse_equation_try L g = raise_exn (ValueError ''Equation must contain '=' sign'') g \<and>
         (\<forall>f g'. parse_equation L g \<noteq> (Inr (Some f), g')) \<and>
         (two_numeric_tokens (time_entry g) \<and> floatvalue (float_strip (ic_entry g)) \<longrightarrow>
          (\<exists>rest. raised (snd (solve L g)) =
                    raised g @ ValueError ''Equation must contain '=' sign'' # rest))"
proof -
  obtain e where e: "fst (solve_try L g) = Inl e" and w: "same_window g (snd (solve_try L g))"
    using solve_try_no_equals [OF assms] by blast
  have "same_window g (snd (solve L g))"
    using same_window_trans [OF w solve_handlers_same_window [OF e]] .
  then have calls: "ivp_calls (snd (solve L g)) = ivp_calls g"
    using same_window_fields by blast
  have nocall: "\<forall>f g'. parse_equation L g \<noteq> (Inr (Some f), g')"
    by (simp add: parse_equation_no_equals [OF assms])
  have reached: "\<exists>rest. raised (snd (solve L g)) =
                    raised g @ ValueError ''Equation must contain '=' sign'' # rest"
    if v: "two_numeric_tokens (time_entry g)" "floatvalue (float_strip (ic_entry g))"
  proof -
    obtain vs where vs: "float_list (split_on CHR '','' (time_entry g)) = Inr vs" "length vs = 2"
      using v(1) float_list_accepts [of "split_on CHR '','' (time_entry g)"]
      by (auto simp add: two_numeric_tokens_def)
    have "solve_try L g =
       (Inl (attribute_error ''show_error''),
        g\<lparr>raised := raised g @ [ValueError ''Equation must contain '=' sign'',
                                attribute_error ''show_error'']\<rparr>)"
      using vs v(2) by (simp add: solve_try_def py_float_def parse_equation_no_equals [OF assms])
    then show ?thesis
      by (simp add: solve_def show_error_fails)
  qed
  show ?thesis
    using calls nocall reached parse_equation_try_no_equals [OF assms] by blast
qed

theorem no_equals_sign_no_integration_witness:
  "CHR ''='' \<notin> set (eq_entry (init_gui\<lparr>eq_entry := ''-a*y''\<rparr>)) \<and>
   ivp_calls (snd (solve demo_lib (init_gui\<lparr>eq_entry := ''-a*y''\<rparr>))) =
     ivp_calls (init_gui\<lparr>eq_entry := ''-a*y''\<rparr>) \<and>
   parse_equation_try demo_lib (init_gui\<lparr>eq_entry := ''-a*y''\<rparr>) =
     raise_exn (ValueError ''Equation must contain '=' sign'') (init_gui\<lparr>eq_entry := ''-a*y''\<rparr>) \<and>
   (\<forall>f g'. parse_equation demo_lib (init_gui\<lparr>eq_entry := ''-a*y''\<rparr>) \<noteq> (Inr (Some f), g')) \<and>
   two_numeric_tokens (time_entry (init_gui\<lparr>eq_entry := ''-a*y''\<rparr>)) \<and>
   floatvalue (float_strip (ic_entry (init_gui\<lparr>eq_entry := ''-a*y''\<rparr>))) \<and>
   (\<exists>rest. raised (snd (solve demo_lib (init_gui\<lparr>eq_entry := ''-a*y''\<rparr>))) =
             raised (init_gui\<lparr>eq_entry := ''-a*y''\<rparr>) @
               ValueError ''Equation must contain '=' sign'' # rest)"
proof -
  have h: "CHR ''='' \<notin> set (eq_entry (init_gui\<lparr>eq_entry := ''-a*y''\<rparr>))"
    by simp
  have t: "two_numeric_tokens (time_entry (init_gui\<lparr>eq_entry := ''-a*y''\<rparr>))"
    by (simp add: init_gui_def two_numeric_tokens_def text_defs)
  have i: "floatvalue (float_strip (ic_entry (init_gui\<lparr>eq_entry := ''-a*y''\<rparr>)))"
    by (simp add: init_gui_def text_defs)
  show ?thesis
    using h t i no_equals_sign_no_integration [OF h, of demo_lib] by blast
qed

text \<open>
  C3, as the spec states it, fails when the time span is not valid: the equation
  \<open>-a*y\<close> has no \<open>=\<close>, the time span \<open>0 10\<close> has no comma, and the only error of that
  Solve is the one of the time span; the format error is never raised.
\<close>

theorem no_equals_sign_bad_time_span_counterexample:
  "CHR ''='' \<notin> set (eq_entry (init_gui\<lparr>eq_entry := ''-a*y'', time_entry := ''0 10''\<rparr>)) \<and>
   ValueError ''Equation must contain '=' sign''
     \<notin> set (raised (snd (solve demo_lib (init_gui\<lparr>eq_entry := ''-a*y'', time_entry := ''0 10''\<rparr>)))) \<and>
   raised (snd (solve demo_lib (init_gui\<lparr>eq_entry := ''-a*y'', time_entry := ''0 10''\<rparr>))) =
     [ValueError (''could not convert string to float: '' @ py_repr ''0 10''), attribute_error ''show_error'']"
  by (simp add: solve_def solve_try_def raise_exn_def show_error_fails init_gui_def
        attribute_error_def text_defs)

section \<open>The error display\<close>

lemma solve_error_ends_in_AttributeError:
  "fst (solve_try L g) = Inl e \<Longrightarrow> fst (solve L g) = Inl (attribute_error ''show_error'')"
  by (cases "solve_try L g") (simp add: solve_def show_error_fails)

text \<open>
  C1 says that every error of a user action is caught at the boundary of the action and
  shown as a modal message, every call of \<open>self.show_error\<close> succeeding. The code calls a
  method that the class does not define. Pressing Solve on the start-up window with the
  equation \<open>-a*y\<close> (no \<open>=\<close>) raises the format error; the handler of \<open>parse_equation\<close>
  raises \<open>AttributeError\<close> at \<open>self.show_error\<close>; the handler of \<open>solve\<close> catches that
  and raises \<open>AttributeError\<close> again, which leaves \<open>solve\<close>. With the time span \<open>0 10\<close>
  the input error ends the same way. No message is shown.
\<close>

theorem error_display_raises_AttributeError:
  "solve L (init_gui\<lparr>eq_entry := ''-a*y''\<rparr>) =
     (Inl (attribute_error ''show_error''),
      init_gui\<lparr>eq_entry := ''-a*y'',
               raised := [ValueError ''Equation must contain '=' sign'',
                          attribute_error ''show_error'', attribute_error ''show_error'']\<rparr>) \<and>
   solve L (init_gui\<lparr>time_entry := ''0 10''\<rparr>) =
     (Inl (attribute_error ''show_error''),
      init_gui\<lparr>time_entry := ''0 10'',
               raised := [ValueError (''could not convert string to float: '' @ py_repr ''0 10''),
                          attribute_error ''show_error'']\<rparr>)"
  by (simp add: solve_def solve_try_def parse_equation_def parse_equation_try_def
        raise_exn_def show_error_fails init_gui_def attribute_error_def text_defs)

section \<open>The Examples dialog\<close>

lemma preset_button_commands:
  "(name, eq, params, ic, tspan) \<in> set examples \<Longrightarrow>
     map_of (win_buttons (last (windows (show_examples g)))) name =
       Some (Load_example eq params ic tspan)"
  by (auto simp add: show_examples_def examples_def)

text \<open>
  C2 says that selecting a preset overwrites the equation, parameter, initial-condition
  and time-span fields through \<open>load_example\<close>. The class defines no \<open>load_example\<close>:
  in the dialog opened from the start-up window, the button "Logistic Growth" calls
  \<open>self.load_example('dy/dt = c*y*(1 - y)', {'c': '0.8'}, '0.1', '0, 10')\<close>, which raises
  \<open>AttributeError\<close>; the equation field still reads \<open>dy/dt = -a*y + sin(b*t)\<close> and the
  initial condition \<open>1.0\<close>.
\<close>

theorem preset_button_raises_AttributeError:
  "press ''Logistic Growth'' (last (windows (show_examples init_gui))) (show_examples init_gui) =
     (Inl (attribute_error ''load_example''),
      (show_examples init_gui)\<lparr>raised := [attribute_error ''load_example'']\<rparr>) \<and>
   eq_entry ((show_examples init_gui)\<lparr>raised := [attribute_error ''load_example'']\<rparr>) =
     ''dy/dt = -a*y + sin(b*t)'' \<and>
   ic_entry ((show_examples init_gui)\<lparr>raised := [attribute_error ''load_example'']\<rparr>) = ''1.0''"
  by (simp add: press_def show_examples_def examples_def init_gui_def load_example_fails)

section \<open>The right-hand side of the equation\<close>

lemma split_on_not_Nil: "split_on c s \<noteq> []"
  by (induction s) (auto split: list.splits)

lemma split_on_no_sep: "c \<notin> set s \<Longrightarrow> split_on c s = [s]"
  by (induction s) auto

lemma split_on_first:
  "c \<in> set s \<Longrightarrow>
     split_on c s = takeWhile (\<lambda>x. x \<noteq> c) s # split_on c (after_first c s)"
  by (induction s) (auto simp add: after_first_def split_on_no_sep split: list.splits)

lemma hd_split_on: "hd (split_on c s) = takeWhile (\<lambda>x. x \<noteq> c) s"
  by (induction s) (auto simp add: split_on_not_Nil split: list.splits)

lemma rhs_text_between:
  assumes "CHR ''='' \<in> set s"
  shows "rhs_text s = Inr (strip (takeWhile (\<lambda>x. x \<noteq> CHR ''='') (after_first CHR ''='' s)))"
proof -
  obtain w ws where "split_on CHR ''='' (after_first CHR ''='' s) = w # ws"
    using split_on_not_Nil by (cases "split_on CHR ''='' (after_first CHR ''='' s)") auto
  moreover from this have "w = takeWhile (\<lambda>x. x \<noteq> CHR ''='') (after_first CHR ''='' s)"
    using hd_split_on [of "CHR ''=''" "after_first CHR ''='' s"] by simp
  ultimately show ?thesis
    using split_on_first [OF assms] by (simp add: rhs_text_def)
qed

text \<open>
  C6 says that the parser takes everything after the first \<open>=\<close>, also when the text has
  two or more \<open>=\<close>. The code takes \<open>eq_text.split('=')[1]\<close>, the piece between the first
  and the second \<open>=\<close> (lemma \<open>rhs_text_between\<close>): for \<open>dy/dt = -a*y = 5\<close> it parses
  \<open>-a*y\<close>, not \<open>-a*y = 5\<close>, and returns a callable for it.
\<close>

theorem rhs_text_stops_at_second_equals_sign:
  "rhs_text ''dy/dt = -a*y = 5'' = Inr ''-a*y'' \<and>
   strip (after_first CHR ''='' ''dy/dt = -a*y = 5'') = ''-a*y = 5'' \<and>
   parse_equation_try demo_lib (init_gui\<lparr>eq_entry := ''dy/dt = -a*y = 5''\<rparr>) =
     (Inr (Lambdify (App ''Mul'' [Integer (- 1), Float (PyFloat ''0.5''), Symbol ''y''])),
      init_gui\<lparr>eq_entry := ''dy/dt = -a*y = 5''\<rparr>)"
  by (simp add: rhs_text_def after_first_def parse_equation_try_def init_gui_def demo_lib_def
        demo_sympify_def demo_subs_def zero_float_def text_defs)

section \<open>Errors of the right-hand side during integration\<close>

text \<open>
  C5 says that an exception raised while the right-hand side is evaluated is reported
  through the error path and re-raised, the solve aborts, and the plot is left as it was.
  Whenever the time span and the initial condition are read, the parser returns a callable
  and an evaluation of the right-hand side raises \<open>x\<close> during the integration, the handler
  in \<open>ode_func\<close> raises \<open>AttributeError\<close> at \<open>self.show_error\<close>: nothing is reported, the
  bare \<open>raise\<close> is not reached, and the exception that leaves \<open>ode_func\<close> and the
  integrator is the \<open>AttributeError\<close>, not \<open>x\<close>. The handler of \<open>solve\<close> raises it once
  more. The solve aborts; the axes and the count of draws are as before.
\<close>

theorem rhs_failure_not_reported:
  assumes "float_list (split_on CHR '','' (time_entry g)) = Inr [t0, tf]"
      and "py_float (ic_entry g) = Inr y0"
      and "parse_equation_try L g = (Inr (Lambdify e), g1)"
      and "rhs_failure L e (solve_ivp L [t0, tf] [y0] (linspace L t0 tf 1000)) = Some x"
  shows "fst (run_ivp (ode_func L (Lambdify e))
                (solve_ivp L [t0, tf] [y0] (linspace L t0 tf 1000)) g2) =
           Inl (attribute_error ''show_error'') \<and>
         solve L g =
           (Inl (attribute_error ''show_error''),
            g\<lparr>ivp_calls := Suc (ivp_calls g),
              raised := raised g @ [x, attribute_error ''show_error'',
                                    attribute_error ''show_error'']\<rparr>) \<and>
         ax (snd (solve L g)) = ax g \<and> draws (snd (solve L g)) = draws g"
proof -
  have g1: "g1 = g" using parse_equation_try_Inr [OF assms(3)] .
  have pe: "parse_equation L g = (Inr (Some (Lambdify e)), g)"
    using assms(3) g1 by (simp add: parse_equation_def)
  have st: "solve_try L g =
      (Inl (attribute_error ''show_error''),
       g\<lparr>ivp_calls := Suc (ivp_calls g),
         raised := raised g @ [x, attribute_error ''show_error'']\<rparr>)"
    using assms(1,2) pe run_ivp_rhs_failure [OF assms(4)]
    by (simp add: solve_try_def)
  have s: "solve L g =
           (Inl (attribute_error ''show_error''),
            g\<lparr>ivp_calls := Suc (ivp_calls g),
              raised := raised g @ [x, attribute_error ''show_error'',
                                    attribute_error ''show_error'']\<rparr>)"
    by (simp add: solve_def st show_error_fails attribute_error_def)
  show ?thesis
    using run_ivp_rhs_failure [OF assms(4), of g2] by (simp add: s)
qed

theorem rhs_failure_not_reported_witness:
  "float_list (split_on CHR '','' (time_entry (init_gui\<lparr>time_entry := ''1, 10'', param_entries :=
       [(''a'', ''0.5''), (''b'', ''''), (''c'', ''0.8''), (''k'', ''1.0'')]\<rparr>))) =
     Inr [PyFloat ''1'', PyFloat ''10''] \<and>
   py_float (ic_entry (init_gui\<lparr>time_entry := ''1, 10'', param_entries :=
       [(''a'', ''0.5''), (''b'', ''''), (''c'', ''0.8''), (''k'', ''1.0'')]\<rparr>)) = Inr (PyFloat ''1.0'') \<and>
   parse_equation_try demo_lib (init_gui\<lparr>time_entry := ''1, 10'', param_entries :=
       [(''a'', ''0.5''), (''b'', ''''), (''c'', ''0.8''), (''k'', ''1.0'')]\<rparr>) =
     (Inr (Lambdify (App ''Add''
        [App ''Mul'' [Integer (- 1), Float (PyFloat ''0.5''), Symbol ''y''],
         App ''sin'' [App ''Mul'' [Symbol ''b'', Symbol ''t'']]])),
      (init_gui\<lparr>time_entry := ''1, 10'', param_entries :=
       [(''a'', ''0.5''), (''b'', ''''), (''c'', ''0.8''), (''k'', ''1.0'')]\<rparr>)) \<and>
   rhs_failure demo_lib (App ''Add''
        [App ''Mul'' [Integer (- 1), Float (PyFloat ''0.5''), Symbol ''y''],
         App ''sin'' [App ''Mul'' [Symbol ''b'', Symbol ''t'']]])
     (solve_ivp demo_lib [PyFloat ''1'', PyFloat ''10''] [PyFloat ''1.0'']
        (linspace demo_lib (PyFloat ''1'') (PyFloat ''10'') 1000)) =
     Some (OtherError ''TypeError''
       ''loop of ufunc does not support argument 0 of type Mul which has no callable sin method'') \<and>
   solve demo_lib (init_gui\<lparr>time_entry := ''1, 10'', param_entries :=
       [(''a'', ''0.5''), (''b'', ''''), (''c'', ''0.8''), (''k'', ''1.0'')]\<rparr>) =
     (Inl (attribute_error ''show_error''),
      (init_gui\<lparr>time_entry := ''1, 10'', param_entries :=
       [(''a'', ''0.5''), (''b'', ''''), (''c'', ''0.8''), (''k'', ''1.0'')]\<rparr>
       \<lparr>ivp_calls := Suc 0,
        raised := [OtherError ''TypeError''
          ''loop of ufunc does not support argument 0 of type Mul which has no callable sin method'',
          attribute_error ''show_error'', attribute_error ''show_error'']\<rparr>))"
proof -
  let ?g = "init_gui\<lparr>time_entry := ''1, 10'', param_entries :=
       [(''a'', ''0.5''), (''b'', ''''), (''c'', ''0.8''), (''k'', ''1.0'')]\<rparr>"
  let ?e = "App ''Add''
        [App ''Mul'' [Integer (- 1), Float (PyFloat ''0.5''), Symbol ''y''],
         App ''sin'' [App ''Mul'' [Symbol ''b'', Symbol ''t'']]]"
  let ?x = "OtherError ''TypeError''
       ''loop of ufunc does not support argument 0 of type Mul which has no callable sin method''"
  have h1: "float_list (split_on CHR '','' (time_entry ?g)) = Inr [PyFloat ''1'', PyFloat ''10'']"
    by (simp add: init_gui_def text_defs)
  have h2: "py_float (ic_entry ?g) = Inr (PyFloat ''1.0'')"
    by (simp add: init_gui_def text_defs)
  have h3: "parse_equation_try demo_lib ?g = (Inr (Lambdify ?e), ?g)"
    by (simp add: parse_equation_try_def rhs_text_def after_first_def init_gui_def demo_lib_def
          demo_sympify_def demo_subs_def zero_float_def text_defs)
  have h4: "rhs_failure demo_lib ?e
              (solve_ivp demo_lib [PyFloat ''1'', PyFloat ''10''] [PyFloat ''1.0'']
                 (linspace demo_lib (PyFloat ''1'') (PyFloat ''10'') 1000)) = Some ?x"
    by (simp add: demo_lib_def demo_solve_ivp_def demo_call_numpy_def)
  have c: "solve demo_lib ?g =
     (Inl (attribute_error ''show_error''),
      ?g\<lparr>ivp_calls := Suc 0, raised := [?x, attribute_error ''show_error'',
                                          attribute_error ''show_error'']\<rparr>)"
    using rhs_failure_not_reported [OF h1 h2 h3 h4, of ?g] by (simp add: init_gui_def)
  show ?thesis
    using h1 h2 h3 h4 c by (intro conjI)
qed

section \<open>Substitution of the parameters\<close>






section \<open>The axes after a successful Solve\<close>

text \<open>
  C10. After every Solve that returns normally, the axes carry the xlabel "Time (t)", the
  ylabel "y(t)" and a legend, the title is empty and the grid is off; a further Solve,
  whatever its outcome, leaves the title empty and the grid off; Clear sets the title
  "Solution Plot" and the grid again.
\<close>

theorem solve_success_axes:
  assumes "solve L g = (Inr (), g')"
  shows "xlabel (ax g') = ''Time (t)'' \<and> ylabel (ax g') = ''y(t)'' \<and>
         legend (ax g') = Some [''Numerical Solution''] \<and>
         title (ax g') = [] \<and> \<not> grid (ax g') \<and>
         title (ax (snd (solve L2 g'))) = [] \<and> \<not> grid (ax (snd (solve L2 g'))) \<and>
         title (ax (clear_plot g')) = ''Solution Plot'' \<and> grid (ax (clear_plot g'))"
proof -
  have p: "\<exists>xs ys. ax g' = plotted_axes xs ys" using solve_ax [of L g] assms by auto
  then have now: "xlabel (ax g') = ''Time (t)'' \<and> ylabel (ax g') = ''y(t)'' \<and>
         legend (ax g') = Some [''Numerical Solution''] \<and> title (ax g') = [] \<and> \<not> grid (ax g')"
    by (auto simp add: plotted_axes_def)
  have later: "title (ax (snd (solve L2 g'))) = [] \<and> \<not> grid (ax (snd (solve L2 g')))"
    using solve_ax [of L2 g'] now by (auto simp add: plotted_axes_def ax_clear_def)
  have clear: "title (ax (clear_plot g')) = ''Solution Plot'' \<and> grid (ax (clear_plot g'))"
    by (simp add: clear_plot_def canvas_draw_def ax_grid_def set_title_def ax_clear_def)
  show ?thesis using now later clear by blast
qed

theorem solve_success_axes_witness:
  "solve demo_lib init_gui = (Inr (), snd (solve demo_lib init_gui)) \<and>
   xlabel (ax (snd (solve demo_lib init_gui))) = ''Time (t)'' \<and>
   ylabel (ax (snd (solve demo_lib init_gui))) = ''y(t)'' \<and>
   legend (ax (snd (solve demo_lib init_gui))) = Some [''Numerical Solution''] \<and>
   title (ax (snd (solve demo_lib init_gui))) = [] \<and>
   \<not> grid (ax (snd (solve demo_lib init_gui))) \<and>
   title (ax (snd (solve demo_lib (snd (solve demo_lib init_gui))))) = [] \<and>
   \<not> grid (ax (snd (solve demo_lib (snd (solve demo_lib init_gui))))) \<and>
   title (ax (clear_plot (snd (solve demo_lib init_gui)))) = ''Solution Plot'' \<and>
   grid (ax (clear_plot (snd (solve demo_lib init_gui))))"
proof -
  have h: "solve demo_lib init_gui = (Inr (), snd (solve demo_lib init_gui))"
    by (simp add: solve_def solve_try_def parse_equation_def parse_equation_try_def ode_func_def
          rhs_text_def after_first_def init_gui_def demo_lib_def demo_sympify_def
          demo_subs_def zero_float_def demo_call_numpy_def demo_solve_ivp_def text_defs)
  show ?thesis
    using h solve_success_axes [OF h, of demo_lib] by blast
qed

end
